theory Spec2Isabelle
  imports Complex_Main "HOL-Library.Sublist"
begin

section \<open>The ReSyne display LUT generator\<close>

text \<open>
  A shallow embedding of \<^verbatim>\<open>src/utilities/generate_resyne_display_lut.py\<close>.
  Python floats are read as real numbers: \<^verbatim>\<open>math.pow(a, x)\<close> for a positive base is
  \<open>a powr x\<close>, \<^verbatim>\<open>math.log2\<close> is \<open>log 2\<close>, \<^verbatim>\<open>math.sqrt\<close> is \<open>sqrt\<close> on the
  non-negative reals. Rounding, infinities and NaN are outside this reading. Python's
  unbounded integers are \<open>int\<close>. Every exception of the source is a value of
  \<open>py_error\<close>, and a function that can raise returns \<open>py_error + 'a\<close>.
\<close>

subsection \<open>Module constants\<close>

definition DB_MIN :: real where
  "DB_MIN = - 120.0"

definition DB_MAX :: real where
  "DB_MAX = 20.0"

definition DB_RANGE :: real where
  "DB_RANGE = DB_MAX - DB_MIN"

definition MIN_FREQ :: real where
  "MIN_FREQ = 20.0"

definition MAX_FREQ :: real where
  "MAX_FREQ = 20000.0"

definition LOG_FREQ_MIN :: real where
  "LOG_FREQ_MIN = log 2 MIN_FREQ"

definition LOG_FREQ_RANGE :: real where
  "LOG_FREQ_RANGE = log 2 MAX_FREQ - LOG_FREQ_MIN"

definition PHASE_OFFSET :: real where
  "PHASE_OFFSET = 0.5"

definition PHASE_SCALE :: real where
  "PHASE_SCALE = 0.5"

definition MAX_AMPLITUDE :: real where
  "MAX_AMPLITUDE = 10.0 powr (DB_MAX / 20.0)"

definition LUT_SIZE :: int where
  "LUT_SIZE = 33"

subsection \<open>Denormalisation\<close>

definition denormalise_magnitude :: "real \<Rightarrow> real" where
  "denormalise_magnitude v =
     (let value = min (max v 0.0) 1.0;
          db = value * DB_RANGE + DB_MIN
      in 10.0 powr (db / 20.0))"

definition denormalise_frequency :: "real \<Rightarrow> real" where
  "denormalise_frequency v =
     (let value = min (max v 0.0) 1.0;
          log_freq = LOG_FREQ_MIN + value * LOG_FREQ_RANGE
      in 2.0 powr log_freq)"

definition decode_cosine_component :: "real \<Rightarrow> real" where
  "decode_cosine_component encoded =
     (min (max encoded 0.0) 1.0 - PHASE_OFFSET) / PHASE_SCALE"

subsection \<open>Python primitives used by the module\<close>

datatype py_error = ZeroDivisionError | ValueError | TypeError | OSError

type_synonym rgb = "real \<times> real \<times> real"

text \<open>\<^verbatim>\<open>x % y\<close> on floats takes the sign of the divisor; the module only divides by
  the non-zero literal \<^verbatim>\<open>360.0\<close>.\<close>

definition py_fmod :: "real \<Rightarrow> real \<Rightarrow> real" where
  "py_fmod x y = x - y * of_int \<lfloor>x / y\<rfloor>"

text \<open>\<^verbatim>\<open>int(x)\<close> truncates towards zero.\<close>

definition py_int :: "real \<Rightarrow> int" where
  "py_int x = (if 0 \<le> x then \<lfloor>x\<rfloor> else \<lceil>x\<rceil>)"

text \<open>\<^verbatim>\<open>math.sqrt\<close> raises \<^verbatim>\<open>ValueError\<close> on a negative argument.\<close>

definition py_sqrt :: "real \<Rightarrow> py_error + real" where
  "py_sqrt x = (if x < 0 then Inl ValueError else Inr (sqrt x))"

text \<open>\<^verbatim>\<open>a / b\<close> on integers is true division and raises on a zero divisor.\<close>

definition py_truediv :: "int \<Rightarrow> int \<Rightarrow> py_error + real" where
  "py_truediv a b = (if b = 0 then Inl ZeroDivisionError else Inr (of_int a / of_int b))"

text \<open>\<^verbatim>\<open>range(n)\<close>: empty for \<open>n \<le> 0\<close>.\<close>

definition py_range :: "int \<Rightarrow> int list" where
  "py_range n = map int [0..<nat n]"

text \<open>\<^verbatim>\<open>colorsys.hsv_to_rgb\<close> of the standard library. Falling off the end of the
  chain of tests returns \<^verbatim>\<open>None\<close>.\<close>

definition hsv_to_rgb :: "real \<Rightarrow> real \<Rightarrow> real \<Rightarrow> rgb option" where
  "hsv_to_rgb h s v =
     (if s = 0.0 then Some (v, v, v)
      else
        let i = py_int (h * 6.0);
            f = (h * 6.0) - of_int i;
            p = v * (1.0 - s);
            q = v * (1.0 - s * f);
            t = v * (1.0 - s * (1.0 - f));
            i = i mod 6
        in if i = 0 then Some (v, t, p)
           else if i = 1 then Some (q, v, p)
           else if i = 2 then Some (p, v, t)
           else if i = 3 then Some (p, q, v)
           else if i = 4 then Some (t, p, v)
           else if i = 5 then Some (v, p, q)
           else None)"

subsection \<open>The colour mapping\<close>

text \<open>The expressions of lines 44, 48 and 50 before their clamps.\<close>

definition amplitude_ratio_raw :: "real \<Rightarrow> real" where
  "amplitude_ratio_raw magnitude = magnitude / MAX_AMPLITUDE"

definition saturation_raw :: "real \<Rightarrow> real" where
  "saturation_raw amplitude_ratio = 0.25 + amplitude_ratio * 0.6"

definition value_raw :: "real \<Rightarrow> real \<Rightarrow> real" where
  "value_raw sqrt_ratio phase_weight = sqrt_ratio * phase_weight"

text \<open>Lines 40 to 50: the hue, saturation and value handed to \<^verbatim>\<open>hsv_to_rgb\<close>.\<close>

definition preview_hsv :: "real \<Rightarrow> real \<Rightarrow> real \<Rightarrow> py_error + (real \<times> real \<times> real)" where
  "preview_hsv magnitude_norm frequency_norm phase_cos_norm =
     (let magnitude = denormalise_magnitude magnitude_norm;
          unused = denormalise_frequency frequency_norm;
          cos_phase = decode_cosine_component phase_cos_norm;
          amplitude_ratio = min (max (amplitude_ratio_raw magnitude) 0.0) 1.0;
          hue_degrees = (1.0 - frequency_norm) * 280.0 + 20.0;
          hue = py_fmod hue_degrees 360.0 / 360.0;
          saturation = min (max (saturation_raw amplitude_ratio) 0.0) 1.0;
          phase_weight = 0.55 + 0.45 * cos_phase
      in case py_sqrt amplitude_ratio of
           Inl e \<Rightarrow> Inl e
         | Inr sqrt_ratio \<Rightarrow> Inr (hue, saturation, min (max (value_raw sqrt_ratio phase_weight) 0.0) 1.0))"

text \<open>Lines 52 and 53: the conversion and the final clamp of each channel. Iterating
  over \<^verbatim>\<open>None\<close> would raise \<^verbatim>\<open>TypeError\<close>.\<close>

definition map_to_preview_rgb :: "real \<Rightarrow> real \<Rightarrow> real \<Rightarrow> py_error + rgb" where
  "map_to_preview_rgb magnitude_norm frequency_norm phase_cos_norm =
     (case preview_hsv magnitude_norm frequency_norm phase_cos_norm of
        Inl e \<Rightarrow> Inl e
      | Inr (hue, saturation, val) \<Rightarrow>
          (case hsv_to_rgb hue saturation val of
             None \<Rightarrow> Inl TypeError
           | Some (r, g, b) \<Rightarrow>
               Inr (min (max r 0.0) 1.0, min (max g 0.0) 1.0, min (max b 0.0) 1.0)))"

subsection \<open>Enumerating the grid\<close>

text \<open>The three nested loops of \<^verbatim>\<open>generate_lut\<close>, innermost first. Each takes the
  values still to be visited and the list \<^verbatim>\<open>samples\<close> built so far.\<close>

fun lut_r_loop :: "int \<Rightarrow> real \<Rightarrow> real \<Rightarrow> int list \<Rightarrow> rgb list \<Rightarrow> py_error + rgb list" where
  "lut_r_loop sz phase_cos_norm frequency_norm [] samples = Inr samples"
| "lut_r_loop sz phase_cos_norm frequency_norm (r # rs) samples =
     (case py_truediv r (sz - 1) of
        Inl e \<Rightarrow> Inl e
      | Inr magnitude_norm \<Rightarrow>
          (case map_to_preview_rgb magnitude_norm frequency_norm phase_cos_norm of
             Inl e \<Rightarrow> Inl e
           | Inr sample \<Rightarrow>
               lut_r_loop sz phase_cos_norm frequency_norm rs (samples @ [sample])))"

fun lut_g_loop :: "int \<Rightarrow> real \<Rightarrow> int list \<Rightarrow> rgb list \<Rightarrow> py_error + rgb list" where
  "lut_g_loop sz phase_cos_norm [] samples = Inr samples"
| "lut_g_loop sz phase_cos_norm (g # gs) samples =
     (case py_truediv g (sz - 1) of
        Inl e \<Rightarrow> Inl e
      | Inr frequency_norm \<Rightarrow>
          (case lut_r_loop sz phase_cos_norm frequency_norm (py_range sz) samples of
             Inl e \<Rightarrow> Inl e
           | Inr samples' \<Rightarrow> lut_g_loop sz phase_cos_norm gs samples'))"

fun lut_b_loop :: "int \<Rightarrow> int list \<Rightarrow> rgb list \<Rightarrow> py_error + rgb list" where
  "lut_b_loop sz [] samples = Inr samples"
| "lut_b_loop sz (b # bs) samples =
     (case py_truediv b (sz - 1) of
        Inl e \<Rightarrow> Inl e
      | Inr phase_cos_norm \<Rightarrow>
          (case lut_g_loop sz phase_cos_norm (py_range sz) samples of
             Inl e \<Rightarrow> Inl e
           | Inr samples' \<Rightarrow> lut_b_loop sz bs samples'))"

definition generate_lut :: "int \<Rightarrow> py_error + rgb list" where
  "generate_lut sz = lut_b_loop sz (py_range sz) []"

subsection \<open>Text formatting\<close>

definition newline :: string where
  "newline = [CHR 0x0A]"

definition digit_char :: "nat \<Rightarrow> char" where
  "digit_char d = ''0123456789'' ! d"

fun digits_nat :: "nat \<Rightarrow> string" where
  "digits_nat n = (if n < 10 then [digit_char n] else digits_nat (n div 10) @ [digit_char (n mod 10)])"

declare digits_nat.simps [simp del]

text \<open>The text of an integer in an f-string, \<^verbatim>\<open>f"{size}"\<close>.\<close>

definition str_int :: "int \<Rightarrow> string" where
  "str_int i = (if i < 0 then ''-'' @ digits_nat (nat (- i)) else digits_nat (nat i))"

text \<open>Rounding to the nearest integer, ties to the even one, as the conversion of a
  number to decimal text does.\<close>

definition round_half_even :: "real \<Rightarrow> int" where
  "round_half_even y =
     (let fl = \<lfloor>y\<rfloor>; d = y - of_int fl
      in if d < 1 / 2 then fl
         else if 1 / 2 < d then fl + 1
         else if even fl then fl
         else fl + 1)"

definition zero_pad :: "nat \<Rightarrow> string \<Rightarrow> string" where
  "zero_pad w ds = replicate (w - length ds) (CHR ''0'') @ ds"

text \<open>The format specification \<^verbatim>\<open>.6f\<close>: fixed point, six digits after the point.\<close>

definition format_6f :: "real \<Rightarrow> string" where
  "format_6f x =
     (let n = nat (round_half_even (\<bar>x\<bar> * 10 ^ 6))
      in (if x < 0 then ''-'' else [])
         @ digits_nat (n div 10 ^ 6) @ ''.'' @ zero_pad 6 (digits_nat (n mod 10 ^ 6)))"

subsection \<open>Paths and files\<close>

text \<open>
  An absolute path is the list of its components; \<^verbatim>\<open>Path.parent\<close> drops the last one
  and leaves the root as it is. The file system holds the directories and the text of
  each regular file. One error stands for every \<^verbatim>\<open>OSError\<close> that depends on what is at
  a path; failures of the device or of permissions are not part of the model.
\<close>

type_synonym path = "string list"

record filesystem =
  dirs :: "path set"
  files :: "path \<rightharpoonup> string"

definition path_parent :: "path \<Rightarrow> path" where
  "path_parent p = butlast p"

definition path_join :: "path \<Rightarrow> string \<Rightarrow> path" where
  "path_join p name = p @ [name]"

text \<open>\<^verbatim>\<open>mkdir(parents=True, exist_ok=True)\<close>: the directory and every missing ancestor are
  created; a regular file in the way is an error.\<close>

definition mkdir_parents :: "path \<Rightarrow> filesystem \<Rightarrow> py_error + filesystem" where
  "mkdir_parents d fs =
     (if \<exists>p \<in> set (prefixes d). files fs p \<noteq> None then Inl OSError
      else Inr (fs\<lparr>dirs := dirs fs \<union> set (prefixes d)\<rparr>))"

text \<open>\<^verbatim>\<open>path.open("w")\<close> gives an empty stream, or fails when the path is a directory or
  its parent is not one. Leaving the \<^verbatim>\<open>with\<close> block stores the text written.\<close>

definition open_w :: "path \<Rightarrow> filesystem \<Rightarrow> py_error + string" where
  "open_w p fs =
     (if p \<in> dirs fs \<or> path_parent p \<notin> dirs fs then Inl OSError else Inr [])"

definition stream_write :: "string \<Rightarrow> string \<Rightarrow> string" where
  "stream_write stream text = stream @ text"

definition close_stream :: "path \<Rightarrow> string \<Rightarrow> filesystem \<Rightarrow> filesystem" where
  "close_stream p stream fs = fs\<lparr>files := (files fs)(p \<mapsto> stream)\<rparr>"

subsection \<open>Writing the cube file\<close>

text \<open>The loop of lines 75 and 76.\<close>

fun write_samples :: "rgb list \<Rightarrow> string \<Rightarrow> string" where
  "write_samples [] stream = stream"
| "write_samples ((r, g, b) # rest) stream =
     write_samples rest
       (stream_write stream
          (format_6f r @ '' '' @ format_6f g @ '' '' @ format_6f b @ newline))"

definition write_cube_file :: "path \<Rightarrow> int \<Rightarrow> filesystem \<Rightarrow> py_error + filesystem" where
  "write_cube_file p sz fs =
     (case generate_lut sz of
        Inl e \<Rightarrow> Inl e
      | Inr samples \<Rightarrow>
          (case open_w p fs of
             Inl e \<Rightarrow> Inl e
           | Inr stream0 \<Rightarrow>
               let stream1 = stream_write stream0
                     (''TITLE '' @ [CHR 0x22] @ ''ReSyne Display (Magnitude/LogFreq/PhaseCos)''
                       @ [CHR 0x22] @ newline);
                   stream2 = stream_write stream1 (''LUT_3D_SIZE '' @ str_int sz @ newline);
                   stream3 = stream_write stream2 (''DOMAIN_MIN 0.0 0.0 0.0'' @ newline);
                   stream4 = stream_write stream3 (''DOMAIN_MAX 1.0 1.0 1.0'' @ newline);
                   stream5 = write_samples samples stream4
               in Inr (close_stream p stream5 fs)))"

subsection \<open>The entry point\<close>

text \<open>\<open>script\<close> is \<^verbatim>\<open>Path(__file__).resolve()\<close>, the absolute path of the module.\<close>

definition output_path :: "path \<Rightarrow> path" where
  "output_path script =
     path_join (path_join (path_join (path_parent (path_parent script)) ''assets'') ''luts'')
       ''ReSyne_Display_v1.cube''"

definition main :: "path \<Rightarrow> filesystem \<Rightarrow> py_error + filesystem" where
  "main script fs =
     (let output = output_path script
      in case mkdir_parents (path_parent output) fs of
           Inl e \<Rightarrow> Inl e
         | Inr fs' \<Rightarrow> write_cube_file output LUT_SIZE fs')"

subsection \<open>The cube format, in the words of the specification\<close>

text \<open>
  The text that the specification asks for: a title line, the size line, the two domain
  lines, then one line for each sample with its three channels in fixed point with six
  decimals, separated by single spaces. The writer of the source is compared with it.
\<close>

definition title_line :: string where
  "title_line = ''TITLE '' @ [CHR 0x22] @ ''ReSyne Display (Magnitude/LogFreq/PhaseCos)''
     @ [CHR 0x22]"

definition data_line :: "rgb \<Rightarrow> string" where
  "data_line s = (case s of (r, g, b) \<Rightarrow> format_6f r @ '' '' @ format_6f g @ '' '' @ format_6f b)"

definition cube_lines :: "int \<Rightarrow> rgb list \<Rightarrow> string list" where
  "cube_lines sz samples =
     [title_line, ''LUT_3D_SIZE '' @ str_int sz, ''DOMAIN_MIN 0.0 0.0 0.0'',
      ''DOMAIN_MAX 1.0 1.0 1.0''] @ map data_line samples"

definition cube_text :: "int \<Rightarrow> rgb list \<Rightarrow> string" where
  "cube_text sz samples = concat (map (\<lambda>line. line @ newline) (cube_lines sz samples))"

definition is_digit :: "char \<Rightarrow> bool" where
  "is_digit c = (c \<in> set ''0123456789'')"

text \<open>A number in fixed point with six decimals: an optional minus sign, one digit or
  more, a point, exactly six digits.\<close>

definition fixed_6 :: "string \<Rightarrow> bool" where
  "fixed_6 s =
     (let body = (if take 1 s = ''-'' then drop 1 s else s);
          whole = takeWhile is_digit body;
          rest = dropWhile is_digit body
      in whole \<noteq> [] \<and> take 1 rest = ''.'' \<and> length (drop 1 rest) = 6
         \<and> list_all is_digit (drop 1 rest))"

section \<open>Properties\<close>

subsection \<open>Constants\<close>

lemma DB_RANGE_eq: "DB_RANGE = 140"
  by (simp add: DB_RANGE_def DB_MAX_def DB_MIN_def)


lemma MAX_AMPLITUDE_eq: "MAX_AMPLITUDE = 10"
  by (simp add: MAX_AMPLITUDE_def DB_MAX_def)

subsection \<open>The denormalisation functions\<close>

lemma denormalise_magnitude_mono:
  "x \<le> y \<Longrightarrow> denormalise_magnitude x \<le> denormalise_magnitude y"
  unfolding denormalise_magnitude_def Let_def DB_RANGE_eq DB_MIN_def
  by (intro powr_mono) (auto simp: min_def max_def)

lemma denormalise_magnitude_pos: "0 < denormalise_magnitude m"
  by (simp add: denormalise_magnitude_def Let_def)

lemma denormalise_magnitude_le: "denormalise_magnitude m \<le> 10"
proof -
  have "(10::real) powr ((min (max m 0) 1 * 140 + - 120) / 20) \<le> 10 powr 1"
    by (intro powr_mono) (auto simp: min_def max_def)
  then show ?thesis
    by (simp add: denormalise_magnitude_def DB_RANGE_eq DB_MIN_def)
qed

text \<open>
  Claim C5. \<open>denormalise_magnitude\<close> clamps its argument to \<open>[0, 1]\<close>, maps it linearly
  to a level in decibels between \<open>-120\<close> and \<open>20\<close>, and returns ten to the power of a
  twentieth of that level. It is monotonic non-decreasing (on the whole line, so on
  \<open>[0, 1]\<close>), its value at \<open>0\<close> is \<open>10 powr (-120 / 20)\<close> and its value at \<open>1\<close> is
  \<open>10 powr (20 / 20) = 10\<close>.
\<close>

theorem denormalise_magnitude_spec:
  "(\<exists>db. db = min (max v 0) 1 * (20 - (- 120)) + (- 120) \<and> - 120 \<le> db \<and> db \<le> 20
      \<and> denormalise_magnitude v = 10 powr (db / 20))
   \<and> (x \<le> y \<longrightarrow> denormalise_magnitude x \<le> denormalise_magnitude y)
   \<and> denormalise_magnitude 0 = 10 powr (- 120 / 20)
   \<and> denormalise_magnitude 1 = 10 powr (20 / 20)
   \<and> denormalise_magnitude 1 = 10"
proof -
  have "- 120 \<le> min (max v 0) 1 * 140 + (- 120) \<and> min (max v 0) 1 * 140 + (- 120) \<le> 20"
    by (simp add: min_def max_def)
  moreover have "denormalise_magnitude v = 10 powr ((min (max v 0) 1 * 140 + (- 120)) / 20)"
    by (simp add: denormalise_magnitude_def DB_RANGE_eq DB_MIN_def)
  moreover have "denormalise_magnitude 0 = 10 powr (- 120 / 20)"
    by (simp add: denormalise_magnitude_def DB_RANGE_eq DB_MIN_def)
  moreover have "denormalise_magnitude 1 = 10"
    by (simp add: denormalise_magnitude_def DB_RANGE_eq DB_MIN_def)
  ultimately show ?thesis
    using denormalise_magnitude_mono [of x y] by simp
qed

theorem denormalise_magnitude_spec_witness:
  "(0::real) \<le> 1 \<and> denormalise_magnitude 0 \<le> denormalise_magnitude 1"
proof -
  have h: "(0::real) \<le> 1" by simp
  show ?thesis using h denormalise_magnitude_spec [of 0 0 1] by simp
qed







lemma decode_cosine_component_range:
  "- 1 \<le> decode_cosine_component e \<and> decode_cosine_component e \<le> 1"
  by (simp add: decode_cosine_component_def PHASE_OFFSET_def PHASE_SCALE_def min_def max_def)

text \<open>
  Claim C7. \<open>decode_cosine_component\<close> clamps its argument to \<open>[0, 1]\<close> and inverts the
  encoding \<open>encoded = cosine * 0.5 + 0.5\<close>: every cosine in \<open>[-1, 1]\<close> is recovered from
  its encoding. It sends \<open>0.5\<close> to \<open>0\<close>, \<open>1\<close> to \<open>1\<close> and \<open>0\<close> to \<open>-1\<close>, and its result
  lies in \<open>[-1, 1]\<close> for every input.
\<close>

theorem decode_cosine_component_spec:
  "decode_cosine_component e = (min (max e 0) 1 - 0.5) / 0.5
   \<and> (- 1 \<le> c \<and> c \<le> 1 \<longrightarrow> decode_cosine_component (c * 0.5 + 0.5) = c)
   \<and> decode_cosine_component 0.5 = 0
   \<and> decode_cosine_component 1 = 1
   \<and> decode_cosine_component 0 = - 1
   \<and> - 1 \<le> decode_cosine_component e \<and> decode_cosine_component e \<le> 1"
proof -
  have "- 1 \<le> c \<and> c \<le> 1 \<longrightarrow> decode_cosine_component (c * 0.5 + 0.5) = c"
    by (simp add: decode_cosine_component_def PHASE_OFFSET_def PHASE_SCALE_def min_def max_def)
  moreover have "decode_cosine_component e = (min (max e 0) 1 - 0.5) / 0.5"
    by (simp add: decode_cosine_component_def PHASE_OFFSET_def PHASE_SCALE_def)
  moreover have "decode_cosine_component 0.5 = 0" "decode_cosine_component 1 = 1"
    "decode_cosine_component 0 = - 1"
    by (simp_all add: decode_cosine_component_def PHASE_OFFSET_def PHASE_SCALE_def)
  ultimately show ?thesis
    using decode_cosine_component_range [of e] by blast
qed

theorem decode_cosine_component_spec_witness:
  "- 1 \<le> (1 / 2 :: real) \<and> (1 / 2 :: real) \<le> 1
   \<and> decode_cosine_component (1 / 2 * 0.5 + 0.5) = 1 / 2"
proof -
  have h: "- 1 \<le> (1 / 2 :: real) \<and> (1 / 2 :: real) \<le> 1" by simp
  show ?thesis using h decode_cosine_component_spec [of 0 "1 / 2"] by blast
qed

subsection \<open>The colour mapping\<close>

lemma mod6_cases:
  "(k::int) mod 6 = 0 \<or> k mod 6 = 1 \<or> k mod 6 = 2 \<or> k mod 6 = 3 \<or> k mod 6 = 4 \<or> k mod 6 = 5"
  by presburger

lemma hsv_to_rgb_Some: "\<exists>r g b. hsv_to_rgb h s v = Some (r, g, b)"
  using mod6_cases [of "py_int (h * 6)"]
  by (auto simp: hsv_to_rgb_def Let_def)

lemma amplitude_ratio_raw_bounds:
  "0 < amplitude_ratio_raw (denormalise_magnitude m)
   \<and> amplitude_ratio_raw (denormalise_magnitude m) \<le> 1"
  using denormalise_magnitude_pos [of m] denormalise_magnitude_le [of m]
  by (simp add: amplitude_ratio_raw_def MAX_AMPLITUDE_eq)

lemma amplitude_ratio_clamp_id:
  "min (max (amplitude_ratio_raw (denormalise_magnitude m)) 0) 1
     = amplitude_ratio_raw (denormalise_magnitude m)"
  using amplitude_ratio_raw_bounds [of m] by simp

lemma saturation_raw_bounds:
  "0 \<le> a \<Longrightarrow> a \<le> 1 \<Longrightarrow> 0.25 \<le> saturation_raw a \<and> saturation_raw a \<le> 0.85"
  by (simp add: saturation_raw_def)

lemma phase_weight_bounds:
  "0.1 \<le> 0.55 + 0.45 * decode_cosine_component p
   \<and> 0.55 + 0.45 * decode_cosine_component p \<le> 1"
proof -
  have "- 1 \<le> decode_cosine_component p \<and> decode_cosine_component p \<le> 1"
    by (rule decode_cosine_component_range)
  then show ?thesis by simp
qed

lemma value_raw_bounds:
  assumes "0 \<le> a" "a \<le> 1" "0 \<le> w" "w \<le> 1"
  shows "0 \<le> value_raw (sqrt a) w \<and> value_raw (sqrt a) w \<le> 1"
proof -
  have "sqrt a \<le> 1" using assms by simp
  moreover have "0 \<le> sqrt a" using assms by simp
  ultimately have "sqrt a * w \<le> 1 * 1"
    using assms by (intro mult_mono) auto
  then show ?thesis using assms by (simp add: value_raw_def)
qed

text \<open>None of the three clamps of lines 44, 48 and 50 changes its argument, and the
  square root is taken of a non-negative number.\<close>

lemma preview_hsv_eq:
  "preview_hsv m f p =
     Inr (py_fmod ((1 - f) * 280 + 20) 360 / 360,
          saturation_raw (amplitude_ratio_raw (denormalise_magnitude m)),
          value_raw (sqrt (amplitude_ratio_raw (denormalise_magnitude m)))
            (0.55 + 0.45 * decode_cosine_component p))"
proof -
  let ?a = "amplitude_ratio_raw (denormalise_magnitude m)"
  let ?w = "0.55 + 0.45 * decode_cosine_component p"
  have a: "0 \<le> ?a" "?a \<le> 1" using amplitude_ratio_raw_bounds [of m] by auto
  have w: "0 \<le> ?w" "?w \<le> 1" using phase_weight_bounds [of p] by auto
  have s: "min (max (saturation_raw ?a) 0) 1 = saturation_raw ?a"
    using saturation_raw_bounds [OF a] by simp
  have v: "min (max (value_raw (sqrt ?a) ?w) 0) 1 = value_raw (sqrt ?a) ?w"
    using value_raw_bounds [OF a w] by simp
  show ?thesis
    using a s v by (simp add: preview_hsv_def Let_def amplitude_ratio_clamp_id py_sqrt_def)
qed

lemma map_to_preview_rgb_Inr:
  "\<exists>r g b. map_to_preview_rgb m f p = Inr (r, g, b)
     \<and> 0 \<le> r \<and> r \<le> 1 \<and> 0 \<le> g \<and> g \<le> 1 \<and> 0 \<le> b \<and> b \<le> 1"
proof -
  obtain h s v where hsv: "preview_hsv m f p = Inr (h, s, v)"
    using preview_hsv_eq by blast
  obtain r g b where rgb: "hsv_to_rgb h s v = Some (r, g, b)"
    using hsv_to_rgb_Some by blast
  show ?thesis
    by (simp add: map_to_preview_rgb_def hsv rgb)
qed


text \<open>
  Claim C10. For every input triple: the magnitude is at most \<open>MAX_AMPLITUDE = 10\<close>, so
  the amplitude ratio before its clamp is already in \<open>[0, 1]\<close>; the saturation before
  its clamp lies in \<open>[0.25, 0.85]\<close>; the value before its clamp lies in \<open>[0, 1]\<close>. So
  none of the three clamps changes its argument, and the saturation handed to the
  conversion is at least \<open>0.25\<close>.
\<close>

theorem preview_hsv_clamps_inactive:
  "let magnitude = denormalise_magnitude magnitude_norm;
       ratio = amplitude_ratio_raw magnitude;
       amplitude_ratio = min (max ratio 0) 1;
       sat = saturation_raw amplitude_ratio;
       val = value_raw (sqrt amplitude_ratio) (0.55 + 0.45 * decode_cosine_component phase_cos_norm)
   in magnitude \<le> 10 \<and> MAX_AMPLITUDE = 10 \<and> ratio = magnitude / 10
      \<and> 0 \<le> ratio \<and> ratio \<le> 1 \<and> amplitude_ratio = ratio
      \<and> 0.25 \<le> sat \<and> sat \<le> 0.85 \<and> min (max sat 0) 1 = sat
      \<and> 0 \<le> val \<and> val \<le> 1 \<and> min (max val 0) 1 = val
      \<and> (\<exists>hue. preview_hsv magnitude_norm frequency_norm phase_cos_norm = Inr (hue, sat, val))"
proof -
  let ?a = "amplitude_ratio_raw (denormalise_magnitude magnitude_norm)"
  let ?w = "0.55 + 0.45 * decode_cosine_component phase_cos_norm"
  have a: "0 \<le> ?a" "?a \<le> 1"
    using amplitude_ratio_raw_bounds [of magnitude_norm] by auto
  have w: "0 \<le> ?w" "?w \<le> 1"
    using phase_weight_bounds [of phase_cos_norm] by auto
  have s: "0.25 \<le> saturation_raw ?a" "saturation_raw ?a \<le> 0.85"
    using saturation_raw_bounds [OF a] by auto
  have v: "0 \<le> value_raw (sqrt ?a) ?w" "value_raw (sqrt ?a) ?w \<le> 1"
    using value_raw_bounds [OF a w] by auto
  have s': "min (max (saturation_raw ?a) 0) 1 = saturation_raw ?a"
    using s by simp
  have v': "min (max (value_raw (sqrt ?a) ?w) 0) 1 = value_raw (sqrt ?a) ?w"
    using v by simp
  have r: "?a = denormalise_magnitude magnitude_norm / 10"
    by (simp add: amplitude_ratio_raw_def MAX_AMPLITUDE_eq)
  show ?thesis
    unfolding Let_def amplitude_ratio_clamp_id
    using a s v s' v' r denormalise_magnitude_le [of magnitude_norm] MAX_AMPLITUDE_eq
      preview_hsv_eq [of magnitude_norm frequency_norm phase_cos_norm]
    by blast
qed

lemma denormalise_magnitude_clamp:
  "denormalise_magnitude (min (max m 0) 1) = denormalise_magnitude m"
  by (simp add: denormalise_magnitude_def)

lemma decode_cosine_component_clamp:
  "decode_cosine_component (min (max p 0) 1) = decode_cosine_component p"
  by (simp add: decode_cosine_component_def)

lemma map_to_preview_rgb_high: "map_to_preview_rgb 1 (3 / 2) 1 = Inr (3 / 20, 3 / 20, 1)"
proof -
  have m: "denormalise_magnitude 1 = 10"
    by (simp add: denormalise_magnitude_def DB_RANGE_eq DB_MIN_def)
  have c: "decode_cosine_component 1 = 1"
    by (simp add: decode_cosine_component_def PHASE_OFFSET_def PHASE_SCALE_def)
  have hsv: "preview_hsv 1 (3 / 2) 1 = Inr (2 / 3, 17 / 20, 1)"
    unfolding preview_hsv_eq m c
    by (simp add: py_fmod_def amplitude_ratio_raw_def MAX_AMPLITUDE_eq saturation_raw_def
        value_raw_def)
  have rgb: "hsv_to_rgb (2 / 3) (17 / 20) 1 = Some (3 / 20, 3 / 20, 1)"
    by (simp add: hsv_to_rgb_def py_int_def)
  show ?thesis
    by (simp add: map_to_preview_rgb_def hsv rgb)
qed

lemma map_to_preview_rgb_top: "map_to_preview_rgb 1 1 1 = Inr (1, 13 / 30, 3 / 20)"
proof -
  have m: "denormalise_magnitude 1 = 10"
    by (simp add: denormalise_magnitude_def DB_RANGE_eq DB_MIN_def)
  have c: "decode_cosine_component 1 = 1"
    by (simp add: decode_cosine_component_def PHASE_OFFSET_def PHASE_SCALE_def)
  have hsv: "preview_hsv 1 1 1 = Inr (1 / 18, 17 / 20, 1)"
    unfolding preview_hsv_eq m c
    by (simp add: py_fmod_def amplitude_ratio_raw_def MAX_AMPLITUDE_eq saturation_raw_def
        value_raw_def)
  have rgb: "hsv_to_rgb (1 / 18) (17 / 20) 1 = Some (1, 13 / 30, 3 / 20)"
    by (simp add: hsv_to_rgb_def py_int_def)
  show ?thesis
    by (simp add: map_to_preview_rgb_def hsv rgb)
qed

text \<open>
  Claim C4, as stated: every input is clamped to \<open>[0, 1]\<close> before use, so the mapping
  of a triple equals the mapping of the clamped triple. It fails at the frequency
  \<open>1.5\<close>: the hue is computed from \<open>frequency_norm\<close> itself and wrapped modulo 360
  degrees, which gives the hue 240 degrees, where the clamped frequency \<open>1\<close> gives 20.
\<close>

theorem map_to_preview_rgb_clamp_counterexample:
  "map_to_preview_rgb 1 (3 / 2) 1
     \<noteq> map_to_preview_rgb (min (max 1 0) 1) (min (max (3 / 2) 0) 1) (min (max 1 0) 1)"
  by (simp add: map_to_preview_rgb_high map_to_preview_rgb_top)

text \<open>
  Claim C4, amended. The magnitude and the phase cosine are clamped to \<open>[0, 1]\<close> before
  use: the mapping of \<open>(m, f, p)\<close> equals the mapping of \<open>(clamp m, f, clamp p)\<close>. The
  frequency is used as it is, so the equation with all three inputs clamped holds for
  a frequency in \<open>[0, 1]\<close>.
\<close>

theorem map_to_preview_rgb_clamp:
  "map_to_preview_rgb m f p = map_to_preview_rgb (min (max m 0) 1) f (min (max p 0) 1)
   \<and> (0 \<le> f \<and> f \<le> 1 \<longrightarrow>
        map_to_preview_rgb m f p
          = map_to_preview_rgb (min (max m 0) 1) (min (max f 0) 1) (min (max p 0) 1))"
proof -
  have "preview_hsv m f p = preview_hsv (min (max m 0) 1) f (min (max p 0) 1)"
    unfolding preview_hsv_eq denormalise_magnitude_clamp decode_cosine_component_clamp ..
  then have "map_to_preview_rgb m f p = map_to_preview_rgb (min (max m 0) 1) f (min (max p 0) 1)"
    by (simp add: map_to_preview_rgb_def)
  then show ?thesis by simp
qed

theorem map_to_preview_rgb_clamp_witness:
  "(0::real) \<le> 1 / 2 \<and> (1 / 2 :: real) \<le> 1
   \<and> map_to_preview_rgb (- 1 / 2) (1 / 2) (3 / 2)
        = map_to_preview_rgb (min (max (- 1 / 2) 0) 1) (min (max (1 / 2) 0) 1)
            (min (max (3 / 2) 0) 1)"
proof -
  have h: "(0::real) \<le> 1 / 2 \<and> (1 / 2 :: real) \<le> 1" by simp
  show ?thesis
    using h map_to_preview_rgb_clamp [of "- 1 / 2" "1 / 2" "3 / 2"] by blast
qed

subsection \<open>The grid enumeration\<close>

lemma concat_map_length:
  assumes "\<And>x. x \<in> set xs \<Longrightarrow> length (F x) = k"
  shows "length (concat (map F xs)) = length xs * k"
  using assms by (induction xs) simp_all

lemma concat_map_nth:
  assumes "\<And>x. x \<in> set xs \<Longrightarrow> length (F x) = k" and "i < length xs * k"
  shows "concat (map F xs) ! i = F (xs ! (i div k)) ! (i mod k)"
  using assms
proof (induction xs arbitrary: i)
  case Nil
  then show ?case by simp
next
  case (Cons x xs)
  have k: "0 < k" using Cons.prems(2) by (cases k) simp_all
  have len: "length (F x) = k" using Cons.prems(1) by simp
  show ?case
  proof (cases "i < k")
    case True
    then show ?thesis by (simp add: nth_append len)
  next
    case False
    then have ge: "k \<le> i" by simp
    have "i - k < length xs * k" using Cons.prems(2) ge by simp
    then have ih: "concat (map F xs) ! (i - k) = F (xs ! ((i - k) div k)) ! ((i - k) mod k)"
      using Cons.IH Cons.prems(1) by simp
    have d: "i div k = Suc ((i - k) div k)"
      using ge k by (simp add: le_div_geq)
    have m: "i mod k = (i - k) mod k"
      using ge by (simp add: le_mod_geq)
    show ?thesis
      using False by (simp add: nth_append len ih d m)
  qed
qed

lemma lut_r_loop_eq:
  assumes "sz \<noteq> 1"
  shows "lut_r_loop sz p f rs samples =
    Inr (samples @ map (\<lambda>r. projr (map_to_preview_rgb (of_int r / of_int (sz - 1)) f p)) rs)"
proof (induction rs arbitrary: samples)
  case Nil
  then show ?case by simp
next
  case (Cons r rs)
  obtain s where s: "map_to_preview_rgb (of_int r / of_int (sz - 1)) f p = Inr s"
    using map_to_preview_rgb_Inr by blast
  show ?case
    using assms s by (simp add: py_truediv_def Cons.IH)
qed

lemma lut_g_loop_eq:
  assumes "sz \<noteq> 1"
  shows "lut_g_loop sz p gs samples =
    Inr (samples @ concat (map (\<lambda>g. map (\<lambda>r. projr (map_to_preview_rgb
        (of_int r / of_int (sz - 1)) (of_int g / of_int (sz - 1)) p)) (py_range sz)) gs))"
proof (induction gs arbitrary: samples)
  case Nil
  then show ?case by simp
next
  case (Cons g gs)
  show ?case
    using assms by (simp add: py_truediv_def lut_r_loop_eq [OF assms] Cons.IH)
qed

lemma lut_b_loop_eq:
  assumes "sz \<noteq> 1"
  shows "lut_b_loop sz bs samples =
    Inr (samples @ concat (map (\<lambda>b. concat (map (\<lambda>g. map (\<lambda>r. projr (map_to_preview_rgb
        (of_int r / of_int (sz - 1)) (of_int g / of_int (sz - 1)) (of_int b / of_int (sz - 1))))
        (py_range sz)) (py_range sz))) bs))"
proof (induction bs arbitrary: samples)
  case Nil
  then show ?case by simp
next
  case (Cons b bs)
  show ?case
    using assms by (simp add: py_truediv_def lut_g_loop_eq [OF assms] Cons.IH)
qed

lemma generate_lut_eq:
  assumes "sz \<noteq> 1"
  shows "generate_lut sz =
    Inr (concat (map (\<lambda>b. concat (map (\<lambda>g. map (\<lambda>r. projr (map_to_preview_rgb
        (of_int r / of_int (sz - 1)) (of_int g / of_int (sz - 1)) (of_int b / of_int (sz - 1))))
        (py_range sz)) (py_range sz))) (py_range sz)))"
  by (simp add: generate_lut_def lut_b_loop_eq [OF assms])

lemma generate_lut_one: "generate_lut 1 = Inl ZeroDivisionError"
  by (simp add: generate_lut_def py_range_def py_truediv_def)

lemma generate_lut_nonpos: "sz \<le> 0 \<Longrightarrow> generate_lut sz = Inr []"
  by (simp add: generate_lut_def py_range_def)

lemma length_py_range: "length (py_range sz) = nat sz"
  by (simp add: py_range_def)

lemma py_range_nth: "i < nat sz \<Longrightarrow> py_range sz ! i = int i"
  by (simp add: py_range_def)

lemma generate_lut_length:
  assumes "generate_lut sz = Inr samples"
  shows "length samples = nat sz * nat sz * nat sz"
proof -
  have ne: "sz \<noteq> 1" using assms generate_lut_one by auto
  show ?thesis
    using assms unfolding generate_lut_eq [OF ne]
    by (auto simp: concat_map_length [where k = "nat sz * nat sz"]
        concat_map_length [where k = "nat sz"] length_py_range)
qed

lemma generate_lut_nth:
  assumes ne: "sz \<noteq> 1" and gen: "generate_lut sz = Inr samples" and i: "i < length samples"
  shows "map_to_preview_rgb (of_int (int i mod sz) / of_int (sz - 1))
           (of_int (int i div sz mod sz) / of_int (sz - 1))
           (of_int (int i div sz ^ 2) / of_int (sz - 1)) = Inr (samples ! i)"
proof -
  define n where "n = nat sz"
  define G where "G = (\<lambda>b g. map (\<lambda>r. projr (map_to_preview_rgb
        (of_int r / of_int (sz - 1)) (of_int g / of_int (sz - 1)) (of_int b / of_int (sz - 1))))
        (py_range sz))"
  define B where "B = (\<lambda>b. concat (map (G b) (py_range sz)))"
  have samples: "samples = concat (map B (py_range sz))"
    using gen unfolding generate_lut_eq [OF ne] B_def G_def by simp
  have lenG: "length (G b g) = n" for b g
    by (simp add: G_def length_py_range n_def)
  have lenB: "length (B b) = n * n" for b
    unfolding B_def by (simp add: concat_map_length [where k = n] lenG length_py_range n_def)
  have i': "i < n * (n * n)"
    using i generate_lut_length [OF gen] by (simp add: n_def mult.assoc)
  then have n: "0 < n" by (cases n) simp_all
  then have sz: "sz = int n" by (simp add: n_def)
  define j where "j = i mod (n * n)"
  have j: "j < n * n" using n by (simp add: j_def)
  have b: "i div (n * n) < n"
    using i' n by (simp add: less_mult_imp_div_less mult.commute)
  have g: "j div n < n"
    using j n by (simp add: less_mult_imp_div_less)
  have r: "j mod n < n" using n by simp
  have "samples ! i = B (py_range sz ! (i div (n * n))) ! j"
    unfolding samples j_def
    by (rule concat_map_nth) (simp_all add: lenB length_py_range i' n_def [symmetric])
  also have "\<dots> = B (int (i div (n * n))) ! j"
    using b by (simp add: py_range_nth n_def)
  also have "\<dots> = G (int (i div (n * n))) (py_range sz ! (j div n)) ! (j mod n)"
    unfolding B_def
    by (rule concat_map_nth) (simp_all add: lenG length_py_range j n_def [symmetric])
  also have "\<dots> = G (int (i div (n * n))) (int (j div n)) ! (j mod n)"
    using g by (simp add: py_range_nth n_def)
  also have "\<dots> = projr (map_to_preview_rgb (of_int (int (j mod n)) / of_int (sz - 1))
      (of_int (int (j div n)) / of_int (sz - 1))
      (of_int (int (i div (n * n))) / of_int (sz - 1)))"
    using r by (simp add: G_def length_py_range py_range_nth n_def)
  finally have nth: "samples ! i = projr (map_to_preview_rgb (of_int (int (j mod n)) / of_int (sz - 1))
      (of_int (int (j div n)) / of_int (sz - 1))
      (of_int (int (i div (n * n))) / of_int (sz - 1)))" .
  have jm: "j mod n = i mod n"
    unfolding j_def by (simp add: mod_mod_cancel)
  have jd: "j div n = i div n mod n"
    unfolding j_def using n by (simp add: mod_mult2_eq)
  have e1: "int (j mod n) = int i mod sz"
    by (simp add: jm sz zmod_int)
  have e2: "int (j div n) = int i div sz mod sz"
    by (simp add: jd sz zmod_int zdiv_int)
  have e3: "int (i div (n * n)) = int i div sz ^ 2"
    by (simp add: sz zdiv_int power2_eq_square)
  obtain s where s: "map_to_preview_rgb (of_int (int i mod sz) / of_int (sz - 1))
           (of_int (int i div sz mod sz) / of_int (sz - 1))
           (of_int (int i div sz ^ 2) / of_int (sz - 1)) = Inr s"
    using map_to_preview_rgb_Inr by blast
  have "samples ! i = s"
    unfolding nth e1 e2 e3 s by simp
  then show ?thesis using s by simp
qed

text \<open>
  Claim C2, as stated: for every size, \<open>generate_lut\<close> returns \<open>size ^ 3\<close> samples. At
  size \<open>1\<close> the first coordinate computed is \<open>0 / (1 - 1)\<close> and the call raises
  \<^verbatim>\<open>ZeroDivisionError\<close>: nothing is returned.
\<close>

theorem generate_lut_size_one_counterexample:
  "generate_lut 1 = Inl ZeroDivisionError"
  by (simp add: generate_lut_def py_range_def py_truediv_def)

text \<open>
  Claim C2, amended. For size \<open>0\<close> and for every size from \<open>2\<close> on, \<open>generate_lut\<close>
  returns exactly \<open>size ^ 3\<close> samples, and the sample at index \<open>i\<close> is the mapping of
  \<open>(r / (size - 1), g / (size - 1), b / (size - 1))\<close> with \<open>r = i mod size\<close>,
  \<open>g = (i div size) mod size\<close> and \<open>b = i div size ^ 2\<close>: the phase axis is the outer
  loop, the frequency axis the middle one, the magnitude axis the inner one.
\<close>

theorem generate_lut_enumeration:
  assumes "sz = 0 \<or> 2 \<le> sz"
  shows "\<exists>samples. generate_lut sz = Inr samples
     \<and> int (length samples) = sz ^ 3
     \<and> (\<forall>i < length samples.
          map_to_preview_rgb (of_int (int i mod sz) / of_int (sz - 1))
            (of_int (int i div sz mod sz) / of_int (sz - 1))
            (of_int (int i div sz ^ 2) / of_int (sz - 1)) = Inr (samples ! i))"
proof -
  have ne: "sz \<noteq> 1" using assms by auto
  obtain samples where gen: "generate_lut sz = Inr samples"
    using generate_lut_eq [OF ne] by blast
  have "length samples = nat sz * nat sz * nat sz"
    by (rule generate_lut_length [OF gen])
  then have "int (length samples) = sz ^ 3"
    using assms by (auto simp: power3_eq_cube)
  then show ?thesis
    using gen generate_lut_nth [OF ne gen] by blast
qed

theorem generate_lut_enumeration_witness:
  "((2::int) = 0 \<or> (2::int) \<le> 2)
   \<and> (\<exists>samples. generate_lut 2 = Inr samples \<and> int (length samples) = 2 ^ 3
        \<and> map_to_preview_rgb (of_int (int 6 mod 2) / of_int (2 - 1))
             (of_int (int 6 div 2 mod 2) / of_int (2 - 1))
             (of_int (int 6 div 2 ^ 2) / of_int (2 - 1)) = Inr (samples ! 6))"
proof -
  have h: "(2::int) = 0 \<or> (2::int) \<le> 2" by simp
  obtain samples where s: "generate_lut 2 = Inr samples" "int (length samples) = 2 ^ 3"
    "\<forall>i < length samples.
          map_to_preview_rgb (of_int (int i mod 2) / of_int (2 - 1))
            (of_int (int i div 2 mod 2) / of_int (2 - 1))
            (of_int (int i div 2 ^ 2) / of_int (2 - 1)) = Inr (samples ! i)"
    using generate_lut_enumeration [OF h] by blast
  have "6 < length samples" using s(2) by simp
  then show ?thesis using h s by blast
qed

text \<open>
  Claim C9, as stated: \<open>generate_lut\<close> returns only for size \<open>0\<close> and for sizes from
  \<open>2\<close> on. A negative size also returns: \<^verbatim>\<open>range\<close> of it is empty, no coordinate is
  computed and the result is the empty list.
\<close>

theorem generate_lut_negative_counterexample:
  "generate_lut (- 1) = Inr []"
  by (simp add: generate_lut_def py_range_def)

text \<open>
  Claim C9, amended. \<open>generate_lut\<close> fails for size \<open>1\<close> only. At size \<open>1\<close> the first
  iteration of the outer loop raises \<^verbatim>\<open>ZeroDivisionError\<close>, whatever has been collected,
  so before any sample is produced. For every size up to \<open>0\<close> it returns the empty list,
  and for every size from \<open>2\<close> on it returns a list: no error branch is reachable.
\<close>

theorem generate_lut_total_except_one:
  "generate_lut 1 = Inl ZeroDivisionError
   \<and> lut_b_loop 1 (b # bs) acc = Inl ZeroDivisionError
   \<and> generate_lut 0 = Inr []
   \<and> (sz \<le> 0 \<longrightarrow> generate_lut sz = Inr [])
   \<and> (2 \<le> sz \<longrightarrow> (\<exists>samples. generate_lut sz = Inr samples))
   \<and> ((\<exists>samples. generate_lut sz = Inr samples) \<longleftrightarrow> sz \<noteq> 1)"
proof -
  have "lut_b_loop 1 (b # bs) acc = Inl ZeroDivisionError"
    by (simp add: py_truediv_def)
  moreover have "sz \<noteq> 1 \<Longrightarrow> \<exists>samples. generate_lut sz = Inr samples"
    using generate_lut_eq by blast
  ultimately show ?thesis
    using generate_lut_one generate_lut_nonpos [of sz] generate_lut_nonpos [of 0] by auto
qed

theorem generate_lut_total_except_one_witness:
  "(- 3 :: int) \<le> 0 \<and> generate_lut (- 3) = Inr []
   \<and> (2::int) \<le> 5 \<and> (\<exists>samples. generate_lut 5 = Inr samples)"
proof -
  have h: "(- 3 :: int) \<le> 0" "(2::int) \<le> 5" by simp_all
  show ?thesis
    using h generate_lut_total_except_one [of 0 "[]" "[]" "- 3"]
      generate_lut_total_except_one [of 0 "[]" "[]" 5]
    by blast
qed

subsection \<open>Fixed-point text\<close>

lemma digit_char_is_digit: "d < 10 \<Longrightarrow> is_digit (digit_char d)"
  unfolding is_digit_def digit_char_def by (rule nth_mem) simp

lemma digits_nat_all_digits: "list_all is_digit (digits_nat n)"
proof (induction n rule: digits_nat.induct)
  case (1 n)
  show ?case
  proof (cases "n < 10")
    case True
    then show ?thesis
      by (subst digits_nat.simps) (simp add: digit_char_is_digit)
  next
    case False
    then show ?thesis
      using "1.IH" by (subst digits_nat.simps) (simp add: digit_char_is_digit)
  qed
qed

lemma digits_nat_nonempty: "digits_nat n \<noteq> []"
  by (subst digits_nat.simps) simp

lemma length_digits_nat: "n < 10 ^ k \<Longrightarrow> 0 < k \<Longrightarrow> length (digits_nat n) \<le> k"
proof (induction k arbitrary: n)
  case 0
  then show ?case by simp
next
  case (Suc k)
  show ?case
  proof (cases "n < 10")
    case True
    then show ?thesis by (subst digits_nat.simps) simp
  next
    case False
    then have k: "0 < k" using Suc.prems(1) by (cases k) simp_all
    have "n div 10 < 10 ^ k"
      using Suc.prems(1) by (simp add: less_mult_imp_div_less mult.commute)
    then have "length (digits_nat (n div 10)) \<le> k"
      using Suc.IH k by simp
    then show ?thesis
      using False by (subst digits_nat.simps) simp
  qed
qed

lemma zero_pad_six:
  assumes "length ds \<le> 6" and "list_all is_digit ds"
  shows "length (zero_pad 6 ds) = 6 \<and> list_all is_digit (zero_pad 6 ds)"
proof -
  have zero: "is_digit (CHR ''0'')"
    by (simp add: is_digit_def)
  show ?thesis
    using assms zero by (auto simp: zero_pad_def list_all_iff)
qed

lemma fixed_6_format_6f: "fixed_6 (format_6f x)"
proof -
  define n where "n = nat (round_half_even (\<bar>x\<bar> * 10 ^ 6))"
  define whole where "whole = digits_nat (n div 10 ^ 6)"
  define frac where "frac = zero_pad 6 (digits_nat (n mod 10 ^ 6))"
  have whole: "whole \<noteq> []" "list_all is_digit whole"
    by (simp_all add: whole_def digits_nat_nonempty digits_nat_all_digits)
  have "length (digits_nat (n mod 10 ^ 6)) \<le> 6"
    by (rule length_digits_nat) simp_all
  then have frac: "length frac = 6" "list_all is_digit frac"
    using zero_pad_six [of "digits_nat (n mod 10 ^ 6)"]
    by (simp_all add: frac_def digits_nat_all_digits)
  have point: "\<not> is_digit (CHR ''.'')" and minus: "\<not> is_digit (CHR ''-'')"
    by (simp_all add: is_digit_def)
  have tw: "takeWhile is_digit (whole @ ''.'' @ frac) = whole"
    using whole point by (simp add: takeWhile_append2 list_all_iff)
  have dw: "dropWhile is_digit (whole @ ''.'' @ frac) = ''.'' @ frac"
    using whole point by (simp add: dropWhile_append2 list_all_iff)
  have body: "fixed_6 (whole @ ''.'' @ frac)"
  proof -
    have "take 1 (whole @ ''.'' @ frac) \<noteq> ''-''"
      using whole minus by (cases whole) auto
    then show ?thesis
      unfolding fixed_6_def Let_def using tw dw whole frac by simp
  qed
  have signed: "fixed_6 (''-'' @ whole @ ''.'' @ frac)"
    unfolding fixed_6_def Let_def using tw dw whole frac by simp
  have "format_6f x = (if x < 0 then ''-'' else []) @ whole @ ''.'' @ frac"
    by (simp add: format_6f_def Let_def n_def whole_def frac_def)
  then show ?thesis
    using body signed by (cases "x < 0") simp_all
qed

subsection \<open>The writer\<close>

lemma write_samples_eq:
  "write_samples samples stream = stream @ concat (map (\<lambda>s. data_line s @ newline) samples)"
proof (induction samples arbitrary: stream)
  case Nil
  then show ?case by simp
next
  case (Cons s samples)
  obtain r g b where s: "s = (r, g, b)" by (cases s)
  show ?case
    by (simp add: s Cons.IH stream_write_def data_line_def)
qed

lemma write_cube_file_eq:
  assumes "generate_lut sz = Inr samples" and "p \<notin> dirs fs" and "path_parent p \<in> dirs fs"
  shows "write_cube_file p sz fs = Inr (fs\<lparr>files := (files fs)(p \<mapsto> cube_text sz samples)\<rparr>)"
  using assms
  by (simp add: write_cube_file_def open_w_def close_stream_def stream_write_def
      write_samples_eq cube_text_def cube_lines_def title_line_def comp_def)

text \<open>
  Claim C3, as stated: for every size the file written holds the four header lines and
  \<open>size ^ 3\<close> data lines. At size \<open>1\<close> the samples are generated first, the generation
  raises \<^verbatim>\<open>ZeroDivisionError\<close>, and the file is not even opened.
\<close>

theorem write_cube_file_size_one_counterexample:
  "write_cube_file [''out.cube''] 1 \<lparr>dirs = {[]}, files = Map.empty\<rparr> = Inl ZeroDivisionError"
  by (simp add: write_cube_file_def generate_lut_def py_range_def py_truediv_def)

text \<open>
  Claim C3, amended. For size \<open>0\<close> and for every size from \<open>2\<close> on, writing to a path
  that is not a directory and whose parent is one succeeds, and the text of the file is
  exactly: the title line, \<open>LUT_3D_SIZE\<close> with the size, \<open>DOMAIN_MIN 0.0 0.0 0.0\<close>,
  \<open>DOMAIN_MAX 1.0 1.0 1.0\<close>, then one line for each of the \<open>size ^ 3\<close> samples of
  \<open>generate_lut\<close>, in generation order, each line ended by a newline. A data line is the
  three channels of its sample, each in fixed point with six decimals, separated by
  single spaces.
\<close>

theorem write_cube_file_content:
  assumes "sz = 0 \<or> 2 \<le> sz" and "p \<notin> dirs fs" and "path_parent p \<in> dirs fs"
  shows "\<exists>samples fs'. generate_lut sz = Inr samples \<and> int (length samples) = sz ^ 3
     \<and> write_cube_file p sz fs = Inr fs'
     \<and> files fs' p = Some (concat (map (\<lambda>line. line @ newline)
          ([''TITLE '' @ [CHR 0x22] @ ''ReSyne Display (Magnitude/LogFreq/PhaseCos)'' @ [CHR 0x22],
            ''LUT_3D_SIZE '' @ str_int sz,
            ''DOMAIN_MIN 0.0 0.0 0.0'',
            ''DOMAIN_MAX 1.0 1.0 1.0'']
           @ map (\<lambda>(r, g, b). format_6f r @ '' '' @ format_6f g @ '' '' @ format_6f b) samples)))
     \<and> (\<forall>(r, g, b) \<in> set samples.
           fixed_6 (format_6f r) \<and> fixed_6 (format_6f g) \<and> fixed_6 (format_6f b))"
proof -
  have ne: "sz \<noteq> 1" using assms(1) by auto
  obtain samples where gen: "generate_lut sz = Inr samples"
    using generate_lut_eq [OF ne] by blast
  have "length samples = nat sz * nat sz * nat sz"
    by (rule generate_lut_length [OF gen])
  then have len: "int (length samples) = sz ^ 3"
    using assms(1) by (auto simp: power3_eq_cube)
  have dl: "data_line = (\<lambda>(r, g, b). format_6f r @ '' '' @ format_6f g @ '' '' @ format_6f b)"
    by (rule ext) (simp add: data_line_def)
  have "files (fs\<lparr>files := (files fs)(p \<mapsto> cube_text sz samples)\<rparr>) p
      = Some (concat (map (\<lambda>line. line @ newline)
          ([''TITLE '' @ [CHR 0x22] @ ''ReSyne Display (Magnitude/LogFreq/PhaseCos)'' @ [CHR 0x22],
            ''LUT_3D_SIZE '' @ str_int sz,
            ''DOMAIN_MIN 0.0 0.0 0.0'',
            ''DOMAIN_MAX 1.0 1.0 1.0'']
           @ map (\<lambda>(r, g, b). format_6f r @ '' '' @ format_6f g @ '' '' @ format_6f b) samples)))"
    by (simp add: cube_text_def cube_lines_def title_line_def dl)
  moreover have "\<forall>(r, g, b) \<in> set samples.
      fixed_6 (format_6f r) \<and> fixed_6 (format_6f g) \<and> fixed_6 (format_6f b)"
    by (simp add: fixed_6_format_6f split_beta)
  ultimately show ?thesis
    using gen len write_cube_file_eq [OF gen assms(2) assms(3)] by blast
qed

theorem write_cube_file_content_witness:
  "((2::int) = 0 \<or> (2::int) \<le> 2)
   \<and> [''out.cube''] \<notin> dirs \<lparr>dirs = {[]}, files = Map.empty\<rparr>
   \<and> path_parent [''out.cube''] \<in> dirs \<lparr>dirs = {[]}, files = Map.empty\<rparr>
   \<and> (\<exists>samples fs'. generate_lut 2 = Inr samples \<and> int (length samples) = 2 ^ 3
        \<and> write_cube_file [''out.cube''] 2 \<lparr>dirs = {[]}, files = Map.empty\<rparr> = Inr fs'
        \<and> files fs' [''out.cube''] = Some (concat (map (\<lambda>line. line @ newline)
          ([''TITLE '' @ [CHR 0x22] @ ''ReSyne Display (Magnitude/LogFreq/PhaseCos)'' @ [CHR 0x22],
            ''LUT_3D_SIZE '' @ str_int 2,
            ''DOMAIN_MIN 0.0 0.0 0.0'',
            ''DOMAIN_MAX 1.0 1.0 1.0'']
           @ map (\<lambda>(r, g, b). format_6f r @ '' '' @ format_6f g @ '' '' @ format_6f b) samples)))
        \<and> (case samples ! 0 of (r, g, b) \<Rightarrow>
              fixed_6 (format_6f r) \<and> fixed_6 (format_6f g) \<and> fixed_6 (format_6f b)))"
proof -
  have h1: "(2::int) = 0 \<or> (2::int) \<le> 2" by simp
  have h2: "[''out.cube''] \<notin> dirs \<lparr>dirs = {[]}, files = Map.empty\<rparr>" by simp
  have h3: "path_parent [''out.cube''] \<in> dirs \<lparr>dirs = {[]}, files = Map.empty\<rparr>"
    by (simp add: path_parent_def)
  from write_cube_file_content [OF h1 h2 h3]
  obtain samples fs' where s: "generate_lut 2 = Inr samples \<and> int (length samples) = 2 ^ 3
     \<and> write_cube_file [''out.cube''] 2 \<lparr>dirs = {[]}, files = Map.empty\<rparr> = Inr fs'
     \<and> files fs' [''out.cube''] = Some (concat (map (\<lambda>line. line @ newline)
          ([''TITLE '' @ [CHR 0x22] @ ''ReSyne Display (Magnitude/LogFreq/PhaseCos)'' @ [CHR 0x22],
            ''LUT_3D_SIZE '' @ str_int 2,
            ''DOMAIN_MIN 0.0 0.0 0.0'',
            ''DOMAIN_MAX 1.0 1.0 1.0'']
           @ map (\<lambda>(r, g, b). format_6f r @ '' '' @ format_6f g @ '' '' @ format_6f b) samples)))
     \<and> (\<forall>(r, g, b) \<in> set samples.
           fixed_6 (format_6f r) \<and> fixed_6 (format_6f g) \<and> fixed_6 (format_6f b))"
    by (elim exE)
  have "0 < length samples" using s by simp
  then have mem: "samples ! 0 \<in> set samples" by (rule nth_mem)
  from s have all: "\<forall>(r, g, b) \<in> set samples.
           fixed_6 (format_6f r) \<and> fixed_6 (format_6f g) \<and> fixed_6 (format_6f b)"
    by (elim conjE)
  have last: "case samples ! 0 of (r, g, b) \<Rightarrow>
      fixed_6 (format_6f r) \<and> fixed_6 (format_6f g) \<and> fixed_6 (format_6f b)"
    using all mem by (rule bspec)
  have "\<exists>samples fs'. generate_lut 2 = Inr samples \<and> int (length samples) = 2 ^ 3
        \<and> write_cube_file [''out.cube''] 2 \<lparr>dirs = {[]}, files = Map.empty\<rparr> = Inr fs'
        \<and> files fs' [''out.cube''] = Some (concat (map (\<lambda>line. line @ newline)
          ([''TITLE '' @ [CHR 0x22] @ ''ReSyne Display (Magnitude/LogFreq/PhaseCos)'' @ [CHR 0x22],
            ''LUT_3D_SIZE '' @ str_int 2,
            ''DOMAIN_MIN 0.0 0.0 0.0'',
            ''DOMAIN_MAX 1.0 1.0 1.0'']
           @ map (\<lambda>(r, g, b). format_6f r @ '' '' @ format_6f g @ '' '' @ format_6f b) samples)))
        \<and> (case samples ! 0 of (r, g, b) \<Rightarrow>
              fixed_6 (format_6f r) \<and> fixed_6 (format_6f g) \<and> fixed_6 (format_6f b))"
    apply (rule exI [of _ samples], rule exI [of _ fs'])
    using s last by (elim conjE) (intro conjI)
  with h1 h2 h3 show ?thesis by (intro conjI)
qed

subsection \<open>The entry point\<close>

lemma output_path_eq:
  "output_path script
     = path_parent (path_parent script) @ [''assets'', ''luts'', ''ReSyne_Display_v1.cube'']"
  by (simp add: output_path_def path_join_def)

lemma path_parent_output_path:
  "path_parent (output_path script) = path_parent (path_parent script) @ [''assets'', ''luts'']"
  by (simp add: output_path_eq path_parent_def butlast_append)

lemma output_path_in_repository:
  "output_path (project @ [''src'', ''utilities'', ''generate_resyne_display_lut.py''])
     = project @ [''src'', ''assets'', ''luts'', ''ReSyne_Display_v1.cube'']"
  by (simp add: output_path_eq path_parent_def butlast_append)

lemma output_path_not_prefix:
  "output_path script \<notin> set (prefixes (path_parent (output_path script)))"
proof
  assume "output_path script \<in> set (prefixes (path_parent (output_path script)))"
  then have "prefix (output_path script) (path_parent (output_path script))"
    by simp
  then have "length (output_path script) \<le> length (path_parent (output_path script))"
    by (rule prefix_length_le)
  then show False
    by (simp add: path_parent_output_path) (simp add: output_path_eq)
qed

lemma generate_lut_default: "\<exists>samples. generate_lut LUT_SIZE = Inr samples"
proof -
  have "LUT_SIZE \<noteq> 1" by (simp add: LUT_SIZE_def)
  then show ?thesis using generate_lut_eq by blast
qed

lemma main_eq:
  assumes free: "\<forall>p \<in> set (prefixes (path_parent (output_path script))). files fs p = None"
    and nodir: "output_path script \<notin> dirs fs"
    and gen: "generate_lut LUT_SIZE = Inr samples"
  shows "main script fs =
    Inr (fs\<lparr>dirs := dirs fs \<union> set (prefixes (path_parent (output_path script))),
            files := (files fs)(output_path script \<mapsto> cube_text LUT_SIZE samples)\<rparr>)"
proof -
  let ?out = "output_path script"
  let ?fs = "fs\<lparr>dirs := dirs fs \<union> set (prefixes (path_parent ?out))\<rparr>"
  have mk: "mkdir_parents (path_parent ?out) fs = Inr ?fs"
    using free by (simp add: mkdir_parents_def)
  have a: "?out \<notin> dirs ?fs"
    using nodir output_path_not_prefix [of script] by simp
  have b: "path_parent ?out \<in> dirs ?fs"
    by simp
  show ?thesis
    unfolding main_def Let_def mk
    by (simp add: write_cube_file_eq [OF gen a b])
qed

text \<open>
  Claim C8, as stated: the file is written to \<open>assets/luts/ReSyne_Display_v1.cube\<close>
  under the project root. The module is \<open>src/utilities/generate_resyne_display_lut.py\<close>
  under the project root, and two \<^verbatim>\<open>.parent\<close> steps from it reach \<open>src\<close>, not the
  root. With the project at \<open>/repo\<close> and nothing else on the file system, the run
  succeeds and leaves no file at \<open>/repo/assets/luts/ReSyne_Display_v1.cube\<close>.
\<close>

theorem main_path_counterexample:
  "map_sum id (\<lambda>fs'. files fs' [''repo'', ''assets'', ''luts'', ''ReSyne_Display_v1.cube''])
     (main [''repo'', ''src'', ''utilities'', ''generate_resyne_display_lut.py'']
        \<lparr>dirs = {[]}, files = Map.empty\<rparr>) = Inr None"
proof -
  let ?script = "[''repo'', ''src'', ''utilities'', ''generate_resyne_display_lut.py'']"
  let ?fs = "\<lparr>dirs = {[]}, files = Map.empty\<rparr> :: filesystem"
  obtain samples where gen: "generate_lut LUT_SIZE = Inr samples"
    using generate_lut_default by blast
  have out: "output_path ?script = [''repo'', ''src'', ''assets'', ''luts'', ''ReSyne_Display_v1.cube'']"
    using output_path_in_repository [of "[''repo'']"] by simp
  have free: "\<forall>p \<in> set (prefixes (path_parent (output_path ?script))). files ?fs p = None"
    by simp
  have nodir: "output_path ?script \<notin> dirs ?fs"
    by (simp add: out)
  show ?thesis
    unfolding main_eq [OF free nodir gen] by (simp add: out)
qed

text \<open>
  Claim C8, amended. The entry point writes the LUT, at the default size \<open>33\<close>, to
  \<open>assets/luts/ReSyne_Display_v1.cube\<close> under the parent of the directory that holds
  the module: for the module at \<open>src/utilities/generate_resyne_display_lut.py\<close> under
  the project root, that is \<open>src/assets/luts/ReSyne_Display_v1.cube\<close> under the project
  root. The parent directories of the file are created if absent and the directories
  that exist are kept. This holds when no regular file stands where a directory is
  needed and the output path is not a directory.
\<close>

theorem main_writes_beside_module_parent:
  assumes "\<forall>p \<in> set (prefixes (path_parent (output_path script))). files fs p = None"
    and "output_path script \<notin> dirs fs"
  shows "output_path script
       = path_parent (path_parent script) @ [''assets'', ''luts'', ''ReSyne_Display_v1.cube'']
     \<and> (script = project @ [''src'', ''utilities'', ''generate_resyne_display_lut.py'']
          \<longrightarrow> output_path script
                = project @ [''src'', ''assets'', ''luts'', ''ReSyne_Display_v1.cube''])
     \<and> (\<exists>fs' samples. main script fs = Inr fs' \<and> generate_lut 33 = Inr samples
          \<and> files fs' (output_path script) = Some (cube_text 33 samples)
          \<and> (\<forall>d \<in> set (prefixes (path_parent (output_path script))). d \<in> dirs fs')
          \<and> dirs fs \<subseteq> dirs fs')"
proof -
  obtain samples where gen: "generate_lut LUT_SIZE = Inr samples"
    using generate_lut_default by blast
  define fs' where "fs' = fs\<lparr>dirs := dirs fs \<union> set (prefixes (path_parent (output_path script))),
      files := (files fs)(output_path script \<mapsto> cube_text LUT_SIZE samples)\<rparr>"
  have m: "main script fs = Inr fs'"
    unfolding fs'_def by (rule main_eq [OF assms gen])
  have g: "generate_lut 33 = Inr samples"
    using gen by (simp add: LUT_SIZE_def)
  have f: "files fs' (output_path script) = Some (cube_text 33 samples)"
    by (simp add: fs'_def LUT_SIZE_def)
  have d: "\<forall>d \<in> set (prefixes (path_parent (output_path script))). d \<in> dirs fs'"
    by (simp add: fs'_def)
  have k: "dirs fs \<subseteq> dirs fs'"
    by (simp add: fs'_def)
  have written: "\<exists>fs' samples. main script fs = Inr fs' \<and> generate_lut 33 = Inr samples
          \<and> files fs' (output_path script) = Some (cube_text 33 samples)
          \<and> (\<forall>d \<in> set (prefixes (path_parent (output_path script))). d \<in> dirs fs')
          \<and> dirs fs \<subseteq> dirs fs'"
    using m g f d k by blast
  have layout: "script = project @ [''src'', ''utilities'', ''generate_resyne_display_lut.py'']
      \<longrightarrow> output_path script
            = project @ [''src'', ''assets'', ''luts'', ''ReSyne_Display_v1.cube'']"
    by (rule impI) (simp only: output_path_in_repository)
  show ?thesis
    using output_path_eq [of script] layout written by (intro conjI)
qed

theorem main_writes_beside_module_parent_witness:
  "\<exists>fs' samples.
      main [''repo'', ''src'', ''utilities'', ''generate_resyne_display_lut.py'']
        \<lparr>dirs = {[]}, files = Map.empty\<rparr> = Inr fs'
      \<and> generate_lut 33 = Inr samples
      \<and> files fs' [''repo'', ''src'', ''assets'', ''luts'', ''ReSyne_Display_v1.cube'']
          = Some (cube_text 33 samples)
      \<and> [''repo'', ''src'', ''assets'', ''luts''] \<in> dirs fs'
      \<and> [''repo'', ''src'', ''assets''] \<in> dirs fs'"
proof -
  define script where
    "script = [''repo'', ''src'', ''utilities'', ''generate_resyne_display_lut.py'']"
  define fs where "fs = (\<lparr>dirs = {[]}, files = Map.empty\<rparr> :: filesystem)"
  have out: "output_path script
      = [''repo'', ''src'', ''assets'', ''luts'', ''ReSyne_Display_v1.cube'']"
    unfolding script_def using output_path_in_repository [of "[''repo'']"] by simp
  have par: "path_parent (output_path script) = [''repo'', ''src'', ''assets'', ''luts'']"
    by (simp add: out path_parent_def)
  have h1: "\<forall>p \<in> set (prefixes (path_parent (output_path script))). files fs p = None"
    by (simp add: fs_def)
  have h2: "output_path script \<notin> dirs fs"
    by (simp add: out fs_def)
  have "\<exists>fs' samples. main script fs = Inr fs' \<and> generate_lut 33 = Inr samples
          \<and> files fs' (output_path script) = Some (cube_text 33 samples)
          \<and> (\<forall>d \<in> set (prefixes (path_parent (output_path script))). d \<in> dirs fs')
          \<and> dirs fs \<subseteq> dirs fs'"
    using main_writes_beside_module_parent [OF h1 h2, of "[''repo'']"] by (elim conjE)
  then obtain fs' samples where s: "main script fs = Inr fs' \<and> generate_lut 33 = Inr samples
          \<and> files fs' (output_path script) = Some (cube_text 33 samples)
          \<and> (\<forall>d \<in> set (prefixes (path_parent (output_path script))). d \<in> dirs fs')
          \<and> dirs fs \<subseteq> dirs fs'"
    by (elim exE)
  then have all: "\<forall>d \<in> set (prefixes (path_parent (output_path script))). d \<in> dirs fs'"
    by (elim conjE)
  have "[''repo'', ''src'', ''assets'', ''luts''] \<in> set (prefixes (path_parent (output_path script)))"
    by (simp add: par)
  with all have d1: "[''repo'', ''src'', ''assets'', ''luts''] \<in> dirs fs'"
    by (rule bspec)
  have "[''repo'', ''src'', ''assets''] \<in> set (prefixes (path_parent (output_path script)))"
    by (simp add: par)
  with all have d2: "[''repo'', ''src'', ''assets''] \<in> dirs fs'"
    by (rule bspec)
  from s have m: "main script fs = Inr fs'" and g: "generate_lut 33 = Inr samples"
    and f: "files fs' (output_path script) = Some (cube_text 33 samples)"
    by simp_all
  show ?thesis
    apply (rule exI [of _ fs'], rule exI [of _ samples])
    using m g f [unfolded out] d1 d2 unfolding script_def fs_def by (intro conjI)
qed

end
